theory Spec2Isabelle
  imports Main
begin

section \<open>The NFT marketplace contract of \<^verbatim>\<open>src/project.py\<close>\<close>

text \<open>
  The contract is a SmartPy class \<^verbatim>\<open>NFTMarketplace\<close>. Its storage \<^verbatim>\<open>self.data\<close> is the
  record \<open>ledger\<close> below; every entrypoint is a function of the storage, the call context
  (\<^verbatim>\<open>sp.sender\<close>, \<^verbatim>\<open>sp.amount\<close>) and its arguments.

  \<^item> \<^verbatim>\<open>sp.address\<close> is an opaque identity, modelled as a string.
  \<^item> \<^verbatim>\<open>sp.nat\<close> is an unbounded natural number, modelled as \<open>nat\<close>.
  \<^item> \<^verbatim>\<open>sp.mutez\<close> is a non-negative amount, modelled as \<open>nat\<close>. Subtraction of mutez
    raises when the result would be negative (\<open>sub_mutez\<close>); the amounts of a call are
    bounded by the host far below the range of the machine representation, so addition
    and multiplication are those of \<open>nat\<close>.
  \<^item> \<^verbatim>\<open>sp.big_map[sp.nat, token_type]\<close> is a partial map.
  \<^item> A failed \<^verbatim>\<open>assert\<close> ends the call with its message. The outcome of a failed
    entrypoint carries the storage as the statements executed before the failing one have
    left it, so that "the entrypoint had written nothing when it failed" is a statement
    about the code. The host discards that storage: after a failed call the contract has
    the storage of before the call (\<open>state_after\<close>).
  \<^item> \<^verbatim>\<open>token = self.data.tokens[token_id]\<close> reads a copy of the stored record; a write
    \<^verbatim>\<open>self.data.tokens[token_id].f = v\<close> updates the record stored under the key.
  \<^item> \<^verbatim>\<open>sp.send(a, m)\<close> looks \<open>a\<close> up as a contract with parameter type unit and emits a
    payment of \<open>m\<close> to it. The lookup finds every implicit account and every contract that
    has an entrypoint of type unit; for any other address it finds nothing and the
    statement fails, inside the entrypoint. Which addresses the lookup finds is a fact of
    the chain at the time of the call: every entrypoint that sends takes it as the
    predicate \<open>unit_contract\<close>. A successful call returns the payments it has emitted, in
    order; their delivery is the host's.
\<close>

type_synonym address = string

type_synonym mutez = nat

record token =
  metadata :: string
  author :: address
  owner :: address
  price :: mutez
  for_sale :: bool

record ledger =
  tokens :: "nat \<rightharpoonup> token"
  next_id :: nat
  admin :: address
  mint_price :: mutez
  royalty_percent :: nat
  platform_fee_percent :: nat
  collected_fees :: mutez
  paused :: bool

datatype error =
  Assertion string  \<comment> \<open>a failed \<^verbatim>\<open>assert\<close>, with its message\<close>
| Mutez_underflow   \<comment> \<open>a subtraction of mutez with a negative result\<close>
| Send_failed       \<comment> \<open>\<^verbatim>\<open>sp.send\<close> to an address that is no contract of type unit\<close>

type_synonym payment = "address \<times> mutez"

type_synonym outcome = "(error \<times> ledger) + (ledger \<times> payment list)"

definition succeeds :: "outcome \<Rightarrow> bool" where
  "succeeds r = (case r of Inl _ \<Rightarrow> False | Inr _ \<Rightarrow> True)"

text \<open>
  The storage of the contract after a call on the storage \<open>s\<close>: the one a successful
  entrypoint returns; after a failed one the host keeps \<open>s\<close>, whatever the entrypoint had
  written before it failed.
\<close>

definition state_after :: "ledger \<Rightarrow> outcome \<Rightarrow> ledger" where
  "state_after s r = (case r of Inl (e, s_failed) \<Rightarrow> s | Inr (s', ops) \<Rightarrow> s')"

subsection \<open>Payments\<close>

definition send :: "(address \<Rightarrow> bool) \<Rightarrow> address \<Rightarrow> mutez \<Rightarrow> payment option" where
  "send unit_contract destination amount =
     (if unit_contract destination then Some (destination, amount) else None)"

subsection \<open>Arithmetic on mutez\<close>

text \<open>
  \<^verbatim>\<open>sp.split_tokens(m, quantity, total)\<close> is \<open>m * quantity / total\<close> in integer division.
  The contract calls it with the literal total \<open>100\<close> only.
\<close>

definition split_tokens :: "mutez \<Rightarrow> nat \<Rightarrow> nat \<Rightarrow> mutez" where
  "split_tokens m quantity total_quantity = (m * quantity) div total_quantity"

definition sub_mutez :: "mutez \<Rightarrow> mutez \<Rightarrow> mutez option" where
  "sub_mutez a b = (if b \<le> a then Some (a - b) else None)"

subsection \<open>Construction\<close>

definition NFTMarketplace_init :: "address \<Rightarrow> mutez \<Rightarrow> nat \<Rightarrow> nat \<Rightarrow> error + ledger" where
  "NFTMarketplace_init admin0 mint_price0 royalty_percent0 platform_fee_percent0 =
     (if \<not> (royalty_percent0 + platform_fee_percent0 < 100) then Inl (Assertion ''Fees too high'')
      else Inr \<lparr>tokens = Map.empty,
                next_id = 0,
                admin = admin0,
                mint_price = mint_price0,
                royalty_percent = royalty_percent0,
                platform_fee_percent = platform_fee_percent0,
                collected_fees = 0,
                paused = False\<rparr>)"

subsection \<open>User entrypoints\<close>

definition mint :: "ledger \<Rightarrow> address \<Rightarrow> mutez \<Rightarrow> string \<Rightarrow> outcome" where
  "mint s sender amount metadata0 =
     (if paused s then Inl (Assertion ''Contract is paused'', s)
      else if amount \<noteq> mint_price s then Inl (Assertion ''Invalid mint price'', s)
      else
        let s1 = s\<lparr>tokens := (tokens s)(next_id s \<mapsto>
                      \<lparr>metadata = metadata0, author = sender, owner = sender,
                       price = 0, for_sale = False\<rparr>)\<rparr>;
            s2 = s1\<lparr>next_id := next_id s1 + 1\<rparr>;
            s3 = s2\<lparr>collected_fees := collected_fees s2 + amount\<rparr>
        in Inr (s3, []))"

definition list_for_sale :: "ledger \<Rightarrow> address \<Rightarrow> mutez \<Rightarrow> nat \<Rightarrow> mutez \<Rightarrow> outcome" where
  "list_for_sale s sender amount token_id price0 =
     (if paused s then Inl (Assertion ''Contract is paused'', s)
      else case tokens s token_id of
        None \<Rightarrow> Inl (Assertion ''Token does not exist'', s)
      | Some token \<Rightarrow>
          if owner token \<noteq> sender then Inl (Assertion ''Not the owner'', s)
          else if for_sale token then Inl (Assertion ''Already listed for sale'', s)
          else if \<not> (0 < price0) then Inl (Assertion ''Price must be greater than 0'', s)
          else
            let s1 = s\<lparr>tokens := (tokens s)(token_id \<mapsto>
                          (the (tokens s token_id))\<lparr>price := price0\<rparr>)\<rparr>;
                s2 = s1\<lparr>tokens := (tokens s1)(token_id \<mapsto>
                          (the (tokens s1 token_id))\<lparr>for_sale := True\<rparr>)\<rparr>
            in Inr (s2, []))"

definition cancel_sale :: "ledger \<Rightarrow> address \<Rightarrow> mutez \<Rightarrow> nat \<Rightarrow> outcome" where
  "cancel_sale s sender amount token_id =
     (case tokens s token_id of
        None \<Rightarrow> Inl (Assertion ''Token does not exist'', s)
      | Some token \<Rightarrow>
          if owner token \<noteq> sender then Inl (Assertion ''Not the owner'', s)
          else if \<not> for_sale token then Inl (Assertion ''Not listed for sale'', s)
          else
            let s1 = s\<lparr>tokens := (tokens s)(token_id \<mapsto>
                          (the (tokens s token_id))\<lparr>for_sale := False\<rparr>)\<rparr>;
                s2 = s1\<lparr>tokens := (tokens s1)(token_id \<mapsto>
                          (the (tokens s1 token_id))\<lparr>price := 0\<rparr>)\<rparr>
            in Inr (s2, []))"

definition buy :: "(address \<Rightarrow> bool) \<Rightarrow> ledger \<Rightarrow> address \<Rightarrow> mutez \<Rightarrow> nat \<Rightarrow> outcome" where
  "buy unit_contract s sender amount token_id =
     (if paused s then Inl (Assertion ''Contract is paused'', s)
      else case tokens s token_id of
        None \<Rightarrow> Inl (Assertion ''Token does not exist'', s)
      | Some token \<Rightarrow>
          if \<not> for_sale token then Inl (Assertion ''Token not for sale'', s)
          else if sender = owner token then Inl (Assertion ''Cannot buy your own token'', s)
          else if amount \<noteq> price token then Inl (Assertion ''Invalid price'', s)
          else
            let royalty_amount = split_tokens (price token) (royalty_percent s) 100;
                platform_fee = split_tokens (price token) (platform_fee_percent s) 100
            in case sub_mutez (price token) royalty_amount of
              None \<Rightarrow> Inl (Mutez_underflow, s)
            | Some rest \<Rightarrow>
                (case sub_mutez rest platform_fee of
                   None \<Rightarrow> Inl (Mutez_underflow, s)
                 | Some seller_amount \<Rightarrow>
                     (case send unit_contract (author token) royalty_amount of
                        None \<Rightarrow> Inl (Send_failed, s)
                      | Some op1 \<Rightarrow>
                          (case send unit_contract (owner token) seller_amount of
                             None \<Rightarrow> Inl (Send_failed, s)
                           | Some op2 \<Rightarrow>
                               let s1 = s\<lparr>collected_fees := collected_fees s + platform_fee\<rparr>;
                                   s2 = s1\<lparr>tokens := (tokens s1)(token_id \<mapsto>
                                          (the (tokens s1 token_id))\<lparr>owner := sender\<rparr>)\<rparr>;
                                   s3 = s2\<lparr>tokens := (tokens s2)(token_id \<mapsto>
                                          (the (tokens s2 token_id))\<lparr>for_sale := False\<rparr>)\<rparr>;
                                   s4 = s3\<lparr>tokens := (tokens s3)(token_id \<mapsto>
                                          (the (tokens s3 token_id))\<lparr>price := 0\<rparr>)\<rparr>
                               in Inr (s4, [op1, op2])))))"

definition transfer :: "ledger \<Rightarrow> address \<Rightarrow> mutez \<Rightarrow> nat \<Rightarrow> address \<Rightarrow> outcome" where
  "transfer s sender amount token_id new_owner =
     (case tokens s token_id of
        None \<Rightarrow> Inl (Assertion ''Token does not exist'', s)
      | Some token \<Rightarrow>
          if amount \<noteq> 0 then Inl (Assertion ''No tez should be sent'', s)
          else if owner token \<noteq> sender then Inl (Assertion ''Not the owner'', s)
          else if \<not> (new_owner \<noteq> sender) then Inl (Assertion ''Cannot transfer to yourself'', s)
          else if for_sale token then Inl (Assertion ''Cancel sale before transfer'', s)
          else Inr (s\<lparr>tokens := (tokens s)(token_id \<mapsto>
                      (the (tokens s token_id))\<lparr>owner := new_owner\<rparr>)\<rparr>, []))"

definition update_author_address ::
    "ledger \<Rightarrow> address \<Rightarrow> mutez \<Rightarrow> nat \<Rightarrow> address \<Rightarrow> outcome" where
  "update_author_address s sender amount token_id new_author =
     (case tokens s token_id of
        None \<Rightarrow> Inl (Assertion ''Token does not exist'', s)
      | Some token \<Rightarrow>
          if author token \<noteq> sender then Inl (Assertion ''Not the author'', s)
          else if \<not> (new_author \<noteq> sender) then Inl (Assertion ''Same address'', s)
          else Inr (s\<lparr>tokens := (tokens s)(token_id \<mapsto>
                      (the (tokens s token_id))\<lparr>author := new_author\<rparr>)\<rparr>, []))"

subsection \<open>Administrator entrypoints\<close>

text \<open>
  \<open>withdraw_fees\<close> sends after it has written: when the payment fails, the entrypoint has
  set \<open>collected_fees\<close> to 0 already.
\<close>

definition withdraw_fees :: "(address \<Rightarrow> bool) \<Rightarrow> ledger \<Rightarrow> address \<Rightarrow> mutez \<Rightarrow> outcome" where
  "withdraw_fees unit_contract s sender amount =
     (if sender \<noteq> admin s then Inl (Assertion ''Not admin'', s)
      else if \<not> (0 < collected_fees s) then Inl (Assertion ''No fees to withdraw'', s)
      else
        let amount0 = collected_fees s;
            s1 = s\<lparr>collected_fees := 0\<rparr>
        in case send unit_contract (admin s1) amount0 of
             None \<Rightarrow> Inl (Send_failed, s1)
           | Some op1 \<Rightarrow> Inr (s1, [op1]))"

definition set_pause :: "ledger \<Rightarrow> address \<Rightarrow> mutez \<Rightarrow> bool \<Rightarrow> outcome" where
  "set_pause s sender amount paused0 =
     (if sender \<noteq> admin s then Inl (Assertion ''Not admin'', s)
      else Inr (s\<lparr>paused := paused0\<rparr>, []))"

definition update_mint_price :: "ledger \<Rightarrow> address \<Rightarrow> mutez \<Rightarrow> mutez \<Rightarrow> outcome" where
  "update_mint_price s sender amount new_price =
     (if sender \<noteq> admin s then Inl (Assertion ''Not admin'', s)
      else Inr (s\<lparr>mint_price := new_price\<rparr>, []))"

definition transfer_admin :: "ledger \<Rightarrow> address \<Rightarrow> mutez \<Rightarrow> address \<Rightarrow> outcome" where
  "transfer_admin s sender amount new_admin =
     (if sender \<noteq> admin s then Inl (Assertion ''Not admin'', s)
      else if \<not> (new_admin \<noteq> admin s) then Inl (Assertion ''Same admin'', s)
      else Inr (s\<lparr>admin := new_admin\<rparr>, []))"

subsection \<open>Views\<close>

definition get_token :: "ledger \<Rightarrow> nat \<Rightarrow> error + token" where
  "get_token s token_id =
     (case tokens s token_id of
        None \<Rightarrow> Inl (Assertion ''Token does not exist'')
      | Some token \<Rightarrow> Inr token)"

definition get_total_tokens :: "ledger \<Rightarrow> nat" where
  "get_total_tokens s = next_id s"

definition is_for_sale :: "ledger \<Rightarrow> nat \<Rightarrow> error + bool" where
  "is_for_sale s token_id =
     (case tokens s token_id of
        None \<Rightarrow> Inl (Assertion ''Token does not exist'')
      | Some token \<Rightarrow> Inr (for_sale token))"

subsection \<open>Calls and reachable storages\<close>

text \<open>
  A call names an entrypoint and gives its arguments; the host adds the sender, the amount
  and the addresses that \<^verbatim>\<open>sp.send\<close> can pay at the time of the call.
\<close>

datatype call =
  Mint string
| List_for_sale nat mutez
| Cancel_sale nat
| Buy nat
| Transfer nat address
| Update_author_address nat address
| Withdraw_fees
| Set_pause bool
| Update_mint_price mutez
| Transfer_admin address

fun entrypoint :: "(address \<Rightarrow> bool) \<Rightarrow> ledger \<Rightarrow> address \<Rightarrow> mutez \<Rightarrow> call \<Rightarrow> outcome" where
  "entrypoint h s sender amount (Mint m) = mint s sender amount m"
| "entrypoint h s sender amount (List_for_sale i p) = list_for_sale s sender amount i p"
| "entrypoint h s sender amount (Cancel_sale i) = cancel_sale s sender amount i"
| "entrypoint h s sender amount (Buy i) = buy h s sender amount i"
| "entrypoint h s sender amount (Transfer i a) = transfer s sender amount i a"
| "entrypoint h s sender amount (Update_author_address i a) =
     update_author_address s sender amount i a"
| "entrypoint h s sender amount Withdraw_fees = withdraw_fees h s sender amount"
| "entrypoint h s sender amount (Set_pause b) = set_pause s sender amount b"
| "entrypoint h s sender amount (Update_mint_price p) = update_mint_price s sender amount p"
| "entrypoint h s sender amount (Transfer_admin a) = transfer_admin s sender amount a"

text \<open>The host runs the calls one after the other, each on the storage the last one left.\<close>

fun run :: "ledger \<Rightarrow> ((address \<Rightarrow> bool) \<times> address \<times> mutez \<times> call) list \<Rightarrow> ledger" where
  "run s [] = s"
| "run s ((h, sender, amount, c) # cs) =
     run (state_after s (entrypoint h s sender amount c)) cs"

text \<open>The storages the contract can be in: built by the constructor, then changed by calls.\<close>

inductive reachable :: "ledger \<Rightarrow> bool" where
  reachable_init: "NFTMarketplace_init a mp r f = Inr s \<Longrightarrow> reachable s"
| reachable_call: "reachable s \<Longrightarrow> reachable (state_after s (entrypoint h s sender amount c))"

subsection \<open>Example storages\<close>

text \<open>
  The storages of the repository's test scenario: the contract as constructed with a mint
  price of one tez, 5 percent royalty and 2 percent platform fee; after a mint by alice;
  after alice has listed her token for ten tez; and after the administrator has paused the
  contract instead.
\<close>

definition demo_init :: ledger where
  "demo_init = \<lparr>tokens = Map.empty, next_id = 0, admin = ''admin'', mint_price = 1000000,
                 royalty_percent = 5, platform_fee_percent = 2, collected_fees = 0,
                 paused = False\<rparr>"

definition alice_token :: token where
  "alice_token = \<lparr>metadata = ''art'', author = ''alice'', owner = ''alice'',
                   price = 0, for_sale = False\<rparr>"

definition demo_minted :: ledger where
  "demo_minted = demo_init\<lparr>tokens := [0 \<mapsto> alice_token], next_id := 1,
                            collected_fees := 1000000\<rparr>"

definition demo_listed :: ledger where
  "demo_listed = demo_minted\<lparr>tokens := [0 \<mapsto> alice_token\<lparr>price := 10000000, for_sale := True\<rparr>]\<rparr>"

definition demo_paused :: ledger where
  "demo_paused = demo_minted\<lparr>paused := True\<rparr>"

text \<open>The rounding scenario: the token is listed for one mutez.\<close>

definition demo_listed_tiny :: ledger where
  "demo_listed_tiny = demo_minted\<lparr>tokens := [0 \<mapsto> alice_token\<lparr>price := 1, for_sale := True\<rparr>]\<rparr>"

text \<open>
  A chain on which every address but one can be paid by \<^verbatim>\<open>sp.send\<close>: the address
  \<open>KT1_vault\<close> is a contract that has no entrypoint of type unit. Storages in which this
  contract has minted token 0 and listed it for 250 mutez, and in which it is the
  administrator.
\<close>

definition demo_chain :: "address \<Rightarrow> bool" where
  "demo_chain a = (a \<noteq> ''KT1_vault'')"

definition vault_token :: token where
  "vault_token = \<lparr>metadata = ''art'', author = ''KT1_vault'', owner = ''KT1_vault'',
                   price = 0, for_sale = False\<rparr>"

definition demo_vault_minted :: ledger where
  "demo_vault_minted = demo_init\<lparr>tokens := [0 \<mapsto> vault_token], next_id := 1,
                                  collected_fees := 1000000\<rparr>"

definition demo_vault_listed :: ledger where
  "demo_vault_listed =
     demo_vault_minted\<lparr>tokens := [0 \<mapsto> vault_token\<lparr>price := 250, for_sale := True\<rparr>]\<rparr>"

definition demo_vault_admin :: ledger where
  "demo_vault_admin = demo_minted\<lparr>admin := ''KT1_vault''\<rparr>"

definition demo_vault_admin_paused :: ledger where
  "demo_vault_admin_paused = demo_vault_admin\<lparr>paused := True\<rparr>"

section \<open>Basic facts\<close>

lemmas entrypoint_defs =
  mint_def list_for_sale_def cancel_sale_def buy_def transfer_def update_author_address_def
  withdraw_fees_def set_pause_def update_mint_price_def transfer_admin_def send_def

lemmas demo_defs = demo_init_def alice_token_def demo_minted_def demo_listed_def demo_paused_def
  demo_listed_tiny_def demo_chain_def vault_token_def demo_vault_minted_def demo_vault_listed_def
  demo_vault_admin_def demo_vault_admin_paused_def

lemma demo_init_constructed: "NFTMarketplace_init ''admin'' 1000000 5 2 = Inr demo_init"
  by (simp add: NFTMarketplace_init_def demo_init_def)

lemma demo_minted_run:
  "run demo_init [(demo_chain, ''alice'', 1000000, Mint ''art'')] = demo_minted"
  by (simp add: mint_def state_after_def demo_defs)

lemma demo_listed_run:
  "run demo_minted [(demo_chain, ''alice'', 0, List_for_sale 0 10000000)] = demo_listed"
  by (simp add: list_for_sale_def state_after_def demo_defs)

lemma demo_paused_run:
  "run demo_minted [(demo_chain, ''admin'', 0, Set_pause True)] = demo_paused"
  by (simp add: set_pause_def state_after_def demo_defs)

lemma demo_vault_minted_run:
  "run demo_init [(demo_chain, ''KT1_vault'', 1000000, Mint ''art'')] = demo_vault_minted"
  by (simp add: mint_def state_after_def demo_defs)

lemma demo_vault_listed_run:
  "run demo_vault_minted [(demo_chain, ''KT1_vault'', 0, List_for_sale 0 250)] = demo_vault_listed"
  by (simp add: list_for_sale_def state_after_def demo_defs)

lemma demo_vault_admin_run:
  "run demo_minted [(demo_chain, ''admin'', 0, Transfer_admin ''KT1_vault'')] = demo_vault_admin"
  by (simp add: transfer_admin_def state_after_def demo_defs)

lemma demo_vault_admin_paused_run:
  "run demo_vault_admin [(demo_chain, ''KT1_vault'', 0, Set_pause True)] = demo_vault_admin_paused"
  by (simp add: set_pause_def state_after_def demo_defs)

lemma reachable_run: "reachable s \<Longrightarrow> reachable (run s cs)"
proof (induction cs arbitrary: s)
  case Nil
  then show ?case by simp
next
  case (Cons x cs)
  obtain h sender amount c where x: "x = (h, sender, amount, c)"
    by (cases x) auto
  have "reachable (state_after s (entrypoint h s sender amount c))"
    using Cons.prems by (rule reachable_call)
  then show ?case
    using Cons.IH x by simp
qed

lemma reachable_demo_init: "reachable demo_init"
  using demo_init_constructed by (rule reachable_init)

lemma reachable_demo_minted: "reachable demo_minted"
  using reachable_run [OF reachable_demo_init] demo_minted_run by metis

lemma reachable_demo_listed: "reachable demo_listed"
  using reachable_run [OF reachable_demo_minted] demo_listed_run by metis

lemma reachable_demo_paused: "reachable demo_paused"
  using reachable_run [OF reachable_demo_minted] demo_paused_run by metis

lemma reachable_demo_vault_minted: "reachable demo_vault_minted"
  using reachable_run [OF reachable_demo_init] demo_vault_minted_run by metis

lemma reachable_demo_vault_listed: "reachable demo_vault_listed"
  using reachable_run [OF reachable_demo_vault_minted] demo_vault_listed_run by metis

lemma reachable_demo_vault_admin: "reachable demo_vault_admin"
  using reachable_run [OF reachable_demo_minted] demo_vault_admin_run by metis

lemma reachable_demo_vault_admin_paused: "reachable demo_vault_admin_paused"
  using reachable_run [OF reachable_demo_vault_admin] demo_vault_admin_paused_run by metis


lemma reachable_fees: "reachable s \<Longrightarrow> royalty_percent s + platform_fee_percent s < 100"
proof (induction rule: reachable.induct)
  case (reachable_init a mp r f s)
  then show ?case
    by (auto simp: NFTMarketplace_init_def split: if_splits)
next
  case (reachable_call s h sender amount c)
  then show ?case
    by (cases c)
       (auto simp: entrypoint_defs state_after_def Let_def split: if_splits option.splits)
qed

lemma reachable_keys: "reachable s \<Longrightarrow> dom (tokens s) = {0..<next_id s}"
proof (induction rule: reachable.induct)
  case (reachable_init a mp r f s)
  then show ?case
    by (auto simp: NFTMarketplace_init_def split: if_splits)
next
  case (reachable_call s h sender amount c)
  then show ?case
    by (cases c)
       (auto simp: entrypoint_defs state_after_def Let_def split: if_splits option.splits)
qed

lemma reachable_sale:
  "reachable s \<Longrightarrow> tokens s i = Some t \<Longrightarrow> for_sale t = (0 < price t)"
proof (induction arbitrary: i t rule: reachable.induct)
  case (reachable_init a mp r f s)
  then show ?case
    by (auto simp: NFTMarketplace_init_def split: if_splits)
next
  case (reachable_call s h sender amount c)
  then show ?case
    by (cases c)
       (auto simp: entrypoint_defs state_after_def Let_def split: if_splits option.splits)
qed

section \<open>The fee split of a sale\<close>

text \<open>
  Claim C1. A successful \<open>buy\<close> of a token listed at price \<open>p\<close> is paid with exactly \<open>p\<close>,
  emits the payment of \<open>floor (p * royalty_percent / 100)\<close> to the token's author and then the
  payment of \<open>seller_amount = p - royalty - platform_fee\<close> to its owner of before the call, and
  adds \<open>platform_fee = floor (p * platform_fee_percent / 100)\<close> to \<open>collected_fees\<close>. The three
  parts sum to \<open>p\<close>, and when royalty and platform fee are both zero the seller receives \<open>p\<close>.
\<close>

theorem buy_fee_split:
  assumes "buy h s sender amount token_id = Inr (s', ops)"
    and "tokens s token_id = Some token"
  shows "let p = price token;
             royalty = p * royalty_percent s div 100;
             platform_fee = p * platform_fee_percent s div 100;
             seller_amount = p - royalty - platform_fee
         in amount = p
          \<and> ops = [(author token, royalty), (owner token, seller_amount)]
          \<and> collected_fees s' = collected_fees s + platform_fee
          \<and> royalty + platform_fee + seller_amount = p
          \<and> (royalty = 0 \<and> platform_fee = 0 \<longrightarrow> seller_amount = p)"
  using assms
  by (auto simp: buy_def send_def split_tokens_def sub_mutez_def Let_def split: if_splits)

theorem buy_fee_split_witness:
  "buy demo_chain demo_listed_tiny ''bob'' 1 0 =
     Inr (demo_minted\<lparr>tokens := [0 \<mapsto> alice_token\<lparr>owner := ''bob''\<rparr>]\<rparr>, [(''alice'', 0), (''alice'', 1)])
   \<and> tokens demo_listed_tiny 0 = Some (alice_token\<lparr>price := 1, for_sale := True\<rparr>)
   \<and> (1::nat) * royalty_percent demo_listed_tiny div 100 = 0
   \<and> (1::nat) * platform_fee_percent demo_listed_tiny div 100 = 0
   \<and> (0::nat) + 0 + (1 - 0 - 0) = 1"
proof -
  have b: "buy demo_chain demo_listed_tiny ''bob'' 1 0 =
      Inr (demo_minted\<lparr>tokens := [0 \<mapsto> alice_token\<lparr>owner := ''bob''\<rparr>]\<rparr>, [(''alice'', 0), (''alice'', 1)])"
    by (simp add: buy_def send_def split_tokens_def sub_mutez_def demo_defs)
  have t: "tokens demo_listed_tiny 0 = Some (alice_token\<lparr>price := 1, for_sale := True\<rparr>)"
    by (simp add: demo_defs)
  from buy_fee_split [OF b t] b t show ?thesis
    by (simp add: demo_defs)
qed

section \<open>A failing call changes nothing\<close>



section \<open>Minting\<close>

text \<open>
  Claim C6. \<open>mint\<close> fails for every amount other than \<open>mint_price\<close>, above or below it. A
  successful \<open>mint\<close> is paid with exactly \<open>mint_price\<close>, stores the token with the given
  metadata, the sender as author and owner, price 0 and not for sale under the key
  \<open>next_id\<close>, adds one to \<open>next_id\<close> and the amount to \<open>collected_fees\<close>, and changes nothing
  else.
\<close>

theorem mint_effect:
  "(amount \<noteq> mint_price s \<longrightarrow> \<not> succeeds (mint s sender amount metadata0))
 \<and> (mint s sender amount metadata0 = Inr (s', ops) \<longrightarrow>
      amount = mint_price s
    \<and> tokens s' = (tokens s)(next_id s \<mapsto>
        \<lparr>metadata = metadata0, author = sender, owner = sender, price = 0, for_sale = False\<rparr>)
    \<and> next_id s' = next_id s + 1
    \<and> collected_fees s' = collected_fees s + amount
    \<and> admin s' = admin s \<and> mint_price s' = mint_price s
    \<and> royalty_percent s' = royalty_percent s
    \<and> platform_fee_percent s' = platform_fee_percent s
    \<and> paused s' = paused s
    \<and> ops = [])"
  by (auto simp: mint_def succeeds_def Let_def split: if_splits)

theorem mint_effect_witness:
  "(500000::nat) \<noteq> mint_price demo_init
 \<and> \<not> succeeds (mint demo_init ''alice'' 500000 ''art'')
 \<and> (2000000::nat) \<noteq> mint_price demo_init
 \<and> \<not> succeeds (mint demo_init ''alice'' 2000000 ''art'')
 \<and> mint demo_init ''alice'' 1000000 ''art'' = Inr (demo_minted, [])
 \<and> tokens demo_minted = (tokens demo_init)(next_id demo_init \<mapsto> alice_token)
 \<and> next_id demo_minted = next_id demo_init + 1
 \<and> collected_fees demo_minted = collected_fees demo_init + 1000000"
proof -
  have m: "mint demo_init ''alice'' 1000000 ''art'' = Inr (demo_minted, [])"
    by (simp add: mint_def demo_defs)
  have lo: "(500000::nat) \<noteq> mint_price demo_init"
    and hi: "(2000000::nat) \<noteq> mint_price demo_init"
    by (simp_all add: demo_defs)
  from mint_effect [of 500000 demo_init "''alice''" "''art''"] lo
  have 1: "\<not> succeeds (mint demo_init ''alice'' 500000 ''art'')"
    by blast
  from mint_effect [of 2000000 demo_init "''alice''" "''art''"] hi
  have 2: "\<not> succeeds (mint demo_init ''alice'' 2000000 ''art'')"
    by blast
  from mint_effect [of 1000000 demo_init "''alice''" "''art''" demo_minted "[]"] m
  have 3: "tokens demo_minted = (tokens demo_init)(next_id demo_init \<mapsto>
        \<lparr>metadata = ''art'', author = ''alice'', owner = ''alice'', price = 0, for_sale = False\<rparr>)
    \<and> next_id demo_minted = next_id demo_init + 1
    \<and> collected_fees demo_minted = collected_fees demo_init + 1000000"
    by blast
  from 1 2 3 m lo hi show ?thesis
    by (simp add: alice_token_def)
qed


section \<open>Buying\<close>

lemma sale_parts_fit:
  assumes "r + f < (100::nat)"
  shows "p * r div 100 \<le> p" and "p * f div 100 \<le> p - p * r div 100"
proof -
  have "p * r div 100 + p * f div 100 \<le> (p * r + p * f) div 100"
    by arith
  also have "\<dots> = p * (r + f) div 100"
    by (simp add: distrib_left)
  also have "\<dots> \<le> p * 100 div 100"
    using assms by (intro div_le_mono mult_le_mono2) simp
  finally have "p * r div 100 + p * f div 100 \<le> p"
    by simp
  then show "p * r div 100 \<le> p" and "p * f div 100 \<le> p - p * r div 100"
    by simp_all
qed

lemma buy_succeeds_iff:
  assumes "royalty_percent s + platform_fee_percent s < 100"
  shows "succeeds (buy h s sender amount token_id) \<longleftrightarrow>
           \<not> paused s \<and> (\<exists>token. tokens s token_id = Some token \<and> for_sale token
              \<and> sender \<noteq> owner token \<and> amount = price token
              \<and> h (author token) \<and> h (owner token))"
  using sale_parts_fit [OF assms]
  by (auto simp: buy_def send_def succeeds_def split_tokens_def sub_mutez_def Let_def
           split: option.splits)

lemma buy_token_after:
  assumes "buy h s sender amount token_id = Inr (s', ops)"
  shows "\<exists>token. tokens s token_id = Some token
           \<and> tokens s' = (tokens s)(token_id \<mapsto> token\<lparr>owner := sender, for_sale := False, price := 0\<rparr>)"
  using assms
  by (auto simp: buy_def send_def Let_def split: if_splits option.splits)

text \<open>
  Claim C7, as stated, has \<open>buy\<close> succeed whenever the contract is not paused, the token
  exists and is for sale, the sender is not its owner and the amount equals its price. The
  entrypoint pays author and owner with \<^verbatim>\<open>sp.send\<close> before it changes the token, and that
  fails for an address that is no contract of type unit. In the example storage, reached by
  a mint and a listing of the contract \<open>KT1_vault\<close>, the five conditions hold for bob's call
  with 250 mutez, and the call fails.
\<close>

theorem buy_unpayable_author_counterexample:
  "reachable demo_vault_listed
 \<and> \<not> paused demo_vault_listed
 \<and> tokens demo_vault_listed 0 = Some (vault_token\<lparr>price := 250, for_sale := True\<rparr>)
 \<and> for_sale (vault_token\<lparr>price := 250, for_sale := True\<rparr>)
 \<and> ''bob'' \<noteq> owner (vault_token\<lparr>price := 250, for_sale := True\<rparr>)
 \<and> (250::nat) = price (vault_token\<lparr>price := 250, for_sale := True\<rparr>)
 \<and> buy demo_chain demo_vault_listed ''bob'' 250 0 = Inl (Send_failed, demo_vault_listed)
 \<and> \<not> succeeds (buy demo_chain demo_vault_listed ''bob'' 250 0)"
proof -
  have "buy demo_chain demo_vault_listed ''bob'' 250 0 = Inl (Send_failed, demo_vault_listed)"
    by (simp add: buy_def send_def split_tokens_def sub_mutez_def demo_defs)
  then show ?thesis
    using reachable_demo_vault_listed by (simp add: succeeds_def demo_defs)
qed

text \<open>
  Claim C7, amended. In every storage the contract can be in, \<open>buy\<close> succeeds if and only if
  the contract is not paused, the token exists, it is for sale, the sender is not its owner,
  the amount equals its price, and \<^verbatim>\<open>sp.send\<close> can pay the token's author and its owner
  (each is an implicit account or a contract with an entrypoint of type unit). A successful
  \<open>buy\<close> makes the sender the owner of that token, clears \<open>for_sale\<close> and sets the price to 0;
  metadata and author stay as they were.
\<close>

theorem buy_succeeds_exactly:
  assumes "reachable s"
  shows "(succeeds (buy h s sender amount token_id) \<longleftrightarrow>
            \<not> paused s \<and> (\<exists>token. tokens s token_id = Some token \<and> for_sale token
               \<and> sender \<noteq> owner token \<and> amount = price token
               \<and> h (author token) \<and> h (owner token)))
       \<and> (buy h s sender amount token_id = Inr (s', ops) \<longrightarrow>
            (\<exists>token token'. tokens s token_id = Some token \<and> tokens s' token_id = Some token'
               \<and> owner token' = sender \<and> \<not> for_sale token' \<and> price token' = 0
               \<and> metadata token' = metadata token \<and> author token' = author token))"
proof -
  have "buy h s sender amount token_id = Inr (s', ops) \<longrightarrow>
          (\<exists>token token'. tokens s token_id = Some token \<and> tokens s' token_id = Some token'
             \<and> owner token' = sender \<and> \<not> for_sale token' \<and> price token' = 0
             \<and> metadata token' = metadata token \<and> author token' = author token)"
    by (auto dest!: buy_token_after)
  then show ?thesis
    using buy_succeeds_iff [OF reachable_fees [OF assms]] by blast
qed

theorem buy_succeeds_exactly_witness:
  "reachable demo_listed
 \<and> succeeds (buy demo_chain demo_listed ''bob'' 10000000 0)
 \<and> \<not> paused demo_listed
 \<and> tokens demo_listed 0 = Some (alice_token\<lparr>price := 10000000, for_sale := True\<rparr>)
 \<and> demo_chain ''alice''
 \<and> buy demo_chain demo_listed ''bob'' 10000000 0 =
     Inr (demo_minted\<lparr>tokens := [0 \<mapsto> alice_token\<lparr>owner := ''bob''\<rparr>],
                       collected_fees := 1200000\<rparr>,
          [(''alice'', 500000), (''alice'', 9300000)])
 \<and> \<not> succeeds (buy demo_chain demo_listed ''alice'' 10000000 0)
 \<and> \<not> succeeds (buy demo_chain demo_listed ''bob'' 9999999 0)
 \<and> \<not> succeeds (buy demo_chain demo_listed ''bob'' 10000000 1)
 \<and> \<not> succeeds (buy demo_chain demo_minted ''bob'' 0 0)
 \<and> reachable demo_vault_listed
 \<and> \<not> demo_chain ''KT1_vault''
 \<and> \<not> succeeds (buy demo_chain demo_vault_listed ''bob'' 250 0)"
proof -
  have t: "tokens demo_listed 0 = Some (alice_token\<lparr>price := 10000000, for_sale := True\<rparr>)"
    and t1: "tokens demo_listed 1 = None"
    and m: "tokens demo_minted 0 = Some alice_token"
    and v: "tokens demo_vault_listed 0 = Some (vault_token\<lparr>price := 250, for_sale := True\<rparr>)"
    and p: "\<not> paused demo_listed"
    and h: "demo_chain ''alice''"
    and k: "\<not> demo_chain ''KT1_vault''"
    by (simp_all add: demo_defs)
  have b: "buy demo_chain demo_listed ''bob'' 10000000 0 =
     Inr (demo_minted\<lparr>tokens := [0 \<mapsto> alice_token\<lparr>owner := ''bob''\<rparr>],
                       collected_fees := 1200000\<rparr>,
          [(''alice'', 500000), (''alice'', 9300000)])"
    by (simp add: buy_def send_def split_tokens_def sub_mutez_def demo_defs)
  have 1: "succeeds (buy demo_chain demo_listed ''bob'' 10000000 0)"
    using buy_succeeds_exactly [OF reachable_demo_listed, of demo_chain "''bob''" 10000000 0] t p h
    by (simp add: alice_token_def)
  have 2: "\<not> succeeds (buy demo_chain demo_listed ''alice'' 10000000 0)"
    using buy_succeeds_exactly [OF reachable_demo_listed, of demo_chain "''alice''" 10000000 0] t
    by (simp add: alice_token_def)
  have 3: "\<not> succeeds (buy demo_chain demo_listed ''bob'' 9999999 0)"
    using buy_succeeds_exactly [OF reachable_demo_listed, of demo_chain "''bob''" 9999999 0] t
    by (simp add: alice_token_def)
  have 4: "\<not> succeeds (buy demo_chain demo_listed ''bob'' 10000000 1)"
    using buy_succeeds_exactly [OF reachable_demo_listed, of demo_chain "''bob''" 10000000 1] t1
    by simp
  have 5: "\<not> succeeds (buy demo_chain demo_minted ''bob'' 0 0)"
    using buy_succeeds_exactly [OF reachable_demo_minted, of demo_chain "''bob''" 0 0] m
    by (simp add: alice_token_def)
  have 6: "\<not> succeeds (buy demo_chain demo_vault_listed ''bob'' 250 0)"
    using buy_succeeds_exactly [OF reachable_demo_vault_listed, of demo_chain "''bob''" 250 0] v k
    by (simp add: vault_token_def)
  from reachable_demo_listed reachable_demo_vault_listed 1 2 3 4 5 6 t p h k b show ?thesis
    by simp
qed

section \<open>Invariants of the token registry\<close>

lemma cancel_sale_token_after:
  assumes "cancel_sale s sender amount token_id = Inr (s', ops)"
  shows "\<exists>token. tokens s token_id = Some token
           \<and> tokens s' = (tokens s)(token_id \<mapsto> token\<lparr>for_sale := False, price := 0\<rparr>)"
  using assms
  by (auto simp: cancel_sale_def Let_def split: if_splits option.splits)

lemma list_for_sale_zero: "\<not> succeeds (list_for_sale s sender amount token_id 0)"
  by (simp add: list_for_sale_def succeeds_def split: option.splits)

lemma next_id_mono: "next_id s \<le> next_id (state_after s (entrypoint h s sender amount c))"
  by (cases c)
     (auto simp: entrypoint_defs state_after_def Let_def split: if_splits option.splits)

lemma tokens_dom_mono:
  "dom (tokens s) \<subseteq> dom (tokens (state_after s (entrypoint h s sender amount c)))"
  by (cases c)
     (auto simp: entrypoint_defs state_after_def Let_def split: if_splits option.splits)

lemma token_kept:
  assumes "tokens s (next_id s) = None" and "tokens s i = Some token"
  shows "\<exists>token'. tokens (state_after s (entrypoint h s sender amount c)) i = Some token'
           \<and> metadata token' = metadata token"
  using assms
  by (cases c)
     (auto simp: entrypoint_defs state_after_def Let_def split: if_splits option.splits)

text \<open>
  Claim C4. In every storage the contract can be in, the keys of \<open>tokens\<close> are exactly
  \<open>0, \<dots>, next_id - 1\<close>, so \<open>next_id\<close> is the number of tokens and the key of the next mint is
  not in use; no call removes a key or replaces the token stored under it by one with other
  metadata, and no call decreases \<open>next_id\<close>.
\<close>

theorem token_keys_sequential:
  assumes "reachable s"
  shows "dom (tokens s) = {0..<next_id s}
       \<and> card (dom (tokens s)) = next_id s
       \<and> get_total_tokens s = card (dom (tokens s))
       \<and> tokens s (next_id s) = None
       \<and> dom (tokens s) \<subseteq> dom (tokens (state_after s (entrypoint h s sender amount c)))
       \<and> (\<forall>i token. tokens s i = Some token \<longrightarrow>
            (\<exists>token'. tokens (state_after s (entrypoint h s sender amount c)) i = Some token'
               \<and> metadata token' = metadata token))
       \<and> next_id s \<le> next_id (state_after s (entrypoint h s sender amount c))"
proof -
  have d: "dom (tokens s) = {0..<next_id s}"
    using assms by (rule reachable_keys)
  then have "next_id s \<notin> dom (tokens s)"
    by simp
  then have f: "tokens s (next_id s) = None"
    by (simp add: domIff)
  have c: "card (dom (tokens s)) = next_id s"
    by (simp add: d)
  have g: "get_total_tokens s = card (dom (tokens s))"
    by (simp add: get_total_tokens_def c)
  have k: "\<forall>i token. tokens s i = Some token \<longrightarrow>
      (\<exists>token'. tokens (state_after s (entrypoint h s sender amount c)) i = Some token'
         \<and> metadata token' = metadata token)"
    using token_kept [OF f] by blast
  from d c g f k tokens_dom_mono next_id_mono show ?thesis
    by blast
qed

theorem token_keys_sequential_witness:
  "reachable demo_minted
 \<and> dom (tokens demo_minted) = {0..<1}
 \<and> next_id demo_minted = 1
 \<and> card (dom (tokens demo_minted)) = 1
 \<and> tokens demo_minted 1 = None
 \<and> next_id (state_after demo_minted
      (entrypoint demo_chain demo_minted ''bob'' 1000000 (Mint ''more''))) = 2
 \<and> dom (tokens (state_after demo_minted
      (entrypoint demo_chain demo_minted ''bob'' 1000000 (Mint ''more'')))) = {0, 1}
 \<and> tokens (state_after demo_minted
      (entrypoint demo_chain demo_minted ''bob'' 1000000 (Mint ''more''))) 0 = Some alice_token"
proof -
  have n: "next_id demo_minted = 1"
    by (simp add: demo_defs)
  have m: "next_id (state_after demo_minted
      (entrypoint demo_chain demo_minted ''bob'' 1000000 (Mint ''more''))) = 2"
    "dom (tokens (state_after demo_minted
      (entrypoint demo_chain demo_minted ''bob'' 1000000 (Mint ''more'')))) = {0, 1}"
    "tokens (state_after demo_minted
      (entrypoint demo_chain demo_minted ''bob'' 1000000 (Mint ''more''))) 0 = Some alice_token"
    by (auto simp: mint_def state_after_def demo_defs)
  from token_keys_sequential [OF reachable_demo_minted, of demo_chain "''bob''" 1000000 "Mint ''more''"]
    reachable_demo_minted n m
  show ?thesis
    by simp
qed

text \<open>
  Claim C5. In every storage the contract can be in, a token that is for sale has a price
  above 0. Listing at price 0 fails (a price is a natural number, so there is none below 0),
  and a successful \<open>cancel_sale\<close> and a successful \<open>buy\<close> both leave the token not for sale and
  at price 0.
\<close>

theorem for_sale_has_price:
  assumes "reachable s"
  shows "(\<forall>i token. tokens s i = Some token \<and> for_sale token \<longrightarrow> 0 < price token)
       \<and> \<not> succeeds (list_for_sale s sender amount token_id 0)
       \<and> (cancel_sale s sender amount token_id = Inr (s', ops) \<longrightarrow>
            (\<exists>token'. tokens s' token_id = Some token' \<and> \<not> for_sale token' \<and> price token' = 0))
       \<and> (buy h s sender amount token_id = Inr (s'', ops') \<longrightarrow>
            (\<exists>token'. tokens s'' token_id = Some token' \<and> \<not> for_sale token' \<and> price token' = 0))"
proof -
  have "\<forall>i token. tokens s i = Some token \<and> for_sale token \<longrightarrow> 0 < price token"
    using reachable_sale [OF assms] by blast
  moreover have "cancel_sale s sender amount token_id = Inr (s', ops) \<longrightarrow>
      (\<exists>token'. tokens s' token_id = Some token' \<and> \<not> for_sale token' \<and> price token' = 0)"
    by (auto dest!: cancel_sale_token_after)
  moreover have "buy h s sender amount token_id = Inr (s'', ops') \<longrightarrow>
      (\<exists>token'. tokens s'' token_id = Some token' \<and> \<not> for_sale token' \<and> price token' = 0)"
    by (auto dest!: buy_token_after)
  ultimately show ?thesis
    using list_for_sale_zero by blast
qed

theorem for_sale_has_price_witness:
  "reachable demo_listed
 \<and> tokens demo_listed 0 = Some (alice_token\<lparr>price := 10000000, for_sale := True\<rparr>)
 \<and> for_sale (alice_token\<lparr>price := 10000000, for_sale := True\<rparr>)
 \<and> 0 < price (alice_token\<lparr>price := 10000000, for_sale := True\<rparr>)
 \<and> \<not> succeeds (list_for_sale demo_minted ''alice'' 0 0 0)
 \<and> cancel_sale demo_listed ''alice'' 0 0 = Inr (demo_minted, [])
 \<and> tokens demo_minted 0 = Some alice_token
 \<and> \<not> for_sale alice_token \<and> price alice_token = 0
 \<and> buy demo_chain demo_listed ''bob'' 10000000 0 =
     Inr (demo_minted\<lparr>tokens := [0 \<mapsto> alice_token\<lparr>owner := ''bob''\<rparr>],
                       collected_fees := 1200000\<rparr>,
          [(''alice'', 500000), (''alice'', 9300000)])"
proof -
  have t: "tokens demo_listed 0 = Some (alice_token\<lparr>price := 10000000, for_sale := True\<rparr>)"
    and f: "for_sale (alice_token\<lparr>price := 10000000, for_sale := True\<rparr>)"
    and m: "tokens demo_minted 0 = Some alice_token"
    by (simp_all add: demo_defs)
  have c: "cancel_sale demo_listed ''alice'' 0 0 = Inr (demo_minted, [])"
    by (simp add: cancel_sale_def demo_defs)
  have b: "buy demo_chain demo_listed ''bob'' 10000000 0 =
     Inr (demo_minted\<lparr>tokens := [0 \<mapsto> alice_token\<lparr>owner := ''bob''\<rparr>],
                       collected_fees := 1200000\<rparr>,
          [(''alice'', 500000), (''alice'', 9300000)])"
    by (simp add: buy_def send_def split_tokens_def sub_mutez_def demo_defs)
  have 1: "0 < price (alice_token\<lparr>price := 10000000, for_sale := True\<rparr>)"
    using for_sale_has_price [OF reachable_demo_listed] t f by blast
  have 2: "\<not> succeeds (list_for_sale demo_minted ''alice'' 0 0 0)"
    using for_sale_has_price [OF reachable_demo_minted] by blast
  have 3: "\<exists>token'. tokens demo_minted 0 = Some token' \<and> \<not> for_sale token' \<and> price token' = 0"
    using for_sale_has_price [OF reachable_demo_listed, of "''alice''" 0 0 demo_minted "[]"] c
    by blast
  from reachable_demo_listed t f 1 2 3 m c b show ?thesis
    by simp
qed

text \<open>
  Claim C10. In every storage the contract can be in, a token that is not for sale has
  price 0, so a token has a price above 0 if and only if it is for sale; \<open>mint\<close> stores its
  token not for sale and at price 0, and a successful \<open>cancel_sale\<close> and a successful \<open>buy\<close>
  set the price to 0 together with clearing \<open>for_sale\<close>.
\<close>

theorem not_for_sale_has_no_price:
  assumes "reachable s" and "tokens s i = Some token"
  shows "(\<not> for_sale token \<longrightarrow> price token = 0)
       \<and> (0 < price token \<longleftrightarrow> for_sale token)
       \<and> (mint s sender amount metadata0 = Inr (s1, ops1) \<longrightarrow>
            (\<exists>token'. tokens s1 (next_id s) = Some token' \<and> \<not> for_sale token' \<and> price token' = 0))
       \<and> (cancel_sale s sender amount i = Inr (s2, ops2) \<longrightarrow>
            (\<exists>token'. tokens s2 i = Some token' \<and> \<not> for_sale token' \<and> price token' = 0))
       \<and> (buy h s sender amount i = Inr (s3, ops3) \<longrightarrow>
            (\<exists>token'. tokens s3 i = Some token' \<and> \<not> for_sale token' \<and> price token' = 0))"
proof -
  have "for_sale token = (0 < price token)"
    using assms by (rule reachable_sale)
  moreover have "mint s sender amount metadata0 = Inr (s1, ops1) \<longrightarrow>
      (\<exists>token'. tokens s1 (next_id s) = Some token' \<and> \<not> for_sale token' \<and> price token' = 0)"
    by (auto simp: mint_def Let_def split: if_splits)
  moreover have "cancel_sale s sender amount i = Inr (s2, ops2) \<longrightarrow>
      (\<exists>token'. tokens s2 i = Some token' \<and> \<not> for_sale token' \<and> price token' = 0)"
    by (auto dest!: cancel_sale_token_after)
  moreover have "buy h s sender amount i = Inr (s3, ops3) \<longrightarrow>
      (\<exists>token'. tokens s3 i = Some token' \<and> \<not> for_sale token' \<and> price token' = 0)"
    by (auto dest!: buy_token_after)
  ultimately show ?thesis
    by simp
qed

theorem not_for_sale_has_no_price_witness:
  "reachable demo_minted
 \<and> tokens demo_minted 0 = Some alice_token
 \<and> \<not> for_sale alice_token
 \<and> price alice_token = 0
 \<and> mint demo_init ''alice'' 1000000 ''art'' = Inr (demo_minted, [])
 \<and> reachable demo_listed
 \<and> tokens demo_listed 0 = Some (alice_token\<lparr>price := 10000000, for_sale := True\<rparr>)
 \<and> cancel_sale demo_listed ''alice'' 0 0 = Inr (demo_minted, [])"
proof -
  have m: "tokens demo_minted 0 = Some alice_token"
    and n: "\<not> for_sale alice_token"
    and t: "tokens demo_listed 0 = Some (alice_token\<lparr>price := 10000000, for_sale := True\<rparr>)"
    by (simp_all add: demo_defs)
  have c: "cancel_sale demo_listed ''alice'' 0 0 = Inr (demo_minted, [])"
    by (simp add: cancel_sale_def demo_defs)
  have i: "mint demo_init ''alice'' 1000000 ''art'' = Inr (demo_minted, [])"
    by (simp add: mint_def demo_defs)
  have 1: "price alice_token = 0"
    using not_for_sale_has_no_price [OF reachable_demo_minted m] n by blast
  have 2: "\<exists>token'. tokens demo_minted 0 = Some token' \<and> \<not> for_sale token' \<and> price token' = 0"
    using not_for_sale_has_no_price [OF reachable_demo_listed t, of "''alice''" 0 _ _ _ demo_minted "[]"] c
    by blast
  from reachable_demo_minted reachable_demo_listed m n t c i 1 2 show ?thesis
    by simp
qed


section \<open>The administrator\<close>

lemma not_admin_rejected:
  assumes "sender \<noteq> admin s"
  shows "withdraw_fees h s sender amount = Inl (Assertion ''Not admin'', s)"
    and "set_pause s sender amount paused0 = Inl (Assertion ''Not admin'', s)"
    and "update_mint_price s sender amount new_price = Inl (Assertion ''Not admin'', s)"
    and "transfer_admin s sender amount new_admin = Inl (Assertion ''Not admin'', s)"
  using assms
  by (simp_all add: withdraw_fees_def set_pause_def update_mint_price_def transfer_admin_def)

lemma admin_after_call:
  "admin (state_after s (entrypoint h s sender amount c)) = admin s
   \<or> c = Transfer_admin (admin (state_after s (entrypoint h s sender amount c)))"
  by (cases c)
     (auto simp: entrypoint_defs state_after_def Let_def split: if_splits option.splits)

lemma admin_not_regained:
  assumes "admin s \<noteq> a" and "\<forall>x \<in> set cs. snd (snd (snd x)) \<noteq> Transfer_admin a"
  shows "admin (run s cs) \<noteq> a"
  using assms
proof (induction cs arbitrary: s)
  case Nil
  then show ?case by simp
next
  case (Cons x cs)
  obtain h sender amount c where x: "x = (h, sender, amount, c)"
    by (cases x) auto
  with Cons.prems have "c \<noteq> Transfer_admin a"
    by simp
  with Cons.prems(1) admin_after_call [of s h sender amount c]
  have "admin (state_after s (entrypoint h s sender amount c)) \<noteq> a"
    by auto
  with Cons.IH Cons.prems(2) x show ?case
    by simp
qed

text \<open>
  Claim C8. Called by anyone but the administrator, \<open>withdraw_fees\<close>, \<open>set_pause\<close>,
  \<open>update_mint_price\<close> and \<open>transfer_admin\<close> fail with the message "Not admin" (the kind
  Unauthorized of the specification) and leave the storage as it was. After a successful
  \<open>transfer_admin\<close>, the four fail in this way for the administrator of before, in the storage
  it leaves and in every storage that further calls lead to, as long as none of these calls
  is a \<open>transfer_admin\<close> to that former administrator.
\<close>

theorem admin_only:
  "(sender \<noteq> admin s \<longrightarrow>
      withdraw_fees h s sender amount = Inl (Assertion ''Not admin'', s)
    \<and> set_pause s sender amount paused0 = Inl (Assertion ''Not admin'', s)
    \<and> update_mint_price s sender amount new_price = Inl (Assertion ''Not admin'', s)
    \<and> transfer_admin s sender amount new_admin = Inl (Assertion ''Not admin'', s))
 \<and> (transfer_admin s sender amount new_admin = Inr (s', ops)
      \<and> (\<forall>x \<in> set cs. snd (snd (snd x)) \<noteq> Transfer_admin (admin s)) \<longrightarrow>
      sender = admin s \<and> admin s' = new_admin \<and> admin (run s' cs) \<noteq> admin s
    \<and> withdraw_fees h (run s' cs) (admin s) amount1 = Inl (Assertion ''Not admin'', run s' cs)
    \<and> set_pause (run s' cs) (admin s) amount2 paused0 = Inl (Assertion ''Not admin'', run s' cs)
    \<and> update_mint_price (run s' cs) (admin s) amount3 new_price
         = Inl (Assertion ''Not admin'', run s' cs)
    \<and> transfer_admin (run s' cs) (admin s) amount4 new_admin1
         = Inl (Assertion ''Not admin'', run s' cs))"
proof (intro conjI impI)
  assume "sender \<noteq> admin s"
  then show "withdraw_fees h s sender amount = Inl (Assertion ''Not admin'', s)"
    and "set_pause s sender amount paused0 = Inl (Assertion ''Not admin'', s)"
    and "update_mint_price s sender amount new_price = Inl (Assertion ''Not admin'', s)"
    and "transfer_admin s sender amount new_admin = Inl (Assertion ''Not admin'', s)"
    by (rule not_admin_rejected)+
next
  assume a: "transfer_admin s sender amount new_admin = Inr (s', ops)
      \<and> (\<forall>x \<in> set cs. snd (snd (snd x)) \<noteq> Transfer_admin (admin s))"
  then have t: "sender = admin s" "admin s' = new_admin" "admin s' \<noteq> admin s"
    by (auto simp: transfer_admin_def split: if_splits)
  from t(3) a have n: "admin (run s' cs) \<noteq> admin s"
    by (intro admin_not_regained) simp_all
  then have n': "admin s \<noteq> admin (run s' cs)"
    by simp
  from t show "sender = admin s" and "admin s' = new_admin"
    by simp_all
  from n show "admin (run s' cs) \<noteq> admin s" .
  from n' show "withdraw_fees h (run s' cs) (admin s) amount1 = Inl (Assertion ''Not admin'', run s' cs)"
    and "set_pause (run s' cs) (admin s) amount2 paused0 = Inl (Assertion ''Not admin'', run s' cs)"
    and "update_mint_price (run s' cs) (admin s) amount3 new_price
           = Inl (Assertion ''Not admin'', run s' cs)"
    and "transfer_admin (run s' cs) (admin s) amount4 new_admin1
           = Inl (Assertion ''Not admin'', run s' cs)"
    by (rule not_admin_rejected)+
qed

theorem admin_only_witness:
  "''alice'' \<noteq> admin demo_minted
 \<and> withdraw_fees demo_chain demo_minted ''alice'' 0 = Inl (Assertion ''Not admin'', demo_minted)
 \<and> set_pause demo_minted ''alice'' 0 True = Inl (Assertion ''Not admin'', demo_minted)
 \<and> update_mint_price demo_minted ''alice'' 0 5000000 = Inl (Assertion ''Not admin'', demo_minted)
 \<and> transfer_admin demo_minted ''alice'' 0 ''alice'' = Inl (Assertion ''Not admin'', demo_minted)
 \<and> transfer_admin demo_minted ''admin'' 0 ''new_admin''
     = Inr (demo_minted\<lparr>admin := ''new_admin''\<rparr>, [])
 \<and> admin (run (demo_minted\<lparr>admin := ''new_admin''\<rparr>)
      [(demo_chain, ''admin'', 0, Set_pause True),
       (demo_chain, ''new_admin'', 0, Update_mint_price 2000000)]) \<noteq> ''admin''
 \<and> set_pause (run (demo_minted\<lparr>admin := ''new_admin''\<rparr>)
      [(demo_chain, ''admin'', 0, Set_pause True),
       (demo_chain, ''new_admin'', 0, Update_mint_price 2000000)]) ''admin'' 0 True
     = Inl (Assertion ''Not admin'', run (demo_minted\<lparr>admin := ''new_admin''\<rparr>)
      [(demo_chain, ''admin'', 0, Set_pause True),
       (demo_chain, ''new_admin'', 0, Update_mint_price 2000000)])"
proof -
  have a: "admin demo_minted = ''admin''"
    by (simp add: demo_defs)
  have t: "transfer_admin demo_minted ''admin'' 0 ''new_admin''
     = Inr (demo_minted\<lparr>admin := ''new_admin''\<rparr>, [])"
    by (simp add: transfer_admin_def demo_defs)
  have c: "\<forall>x \<in> set [(demo_chain, ''admin'', 0::nat, Set_pause True),
                      (demo_chain, ''new_admin'', 0, Update_mint_price 2000000)].
             snd (snd (snd x)) \<noteq> Transfer_admin (admin demo_minted)"
    by simp
  have n: "''alice'' \<noteq> admin demo_minted"
    by (simp add: a)
  from admin_only [where sender = "''alice''" and s = demo_minted and h = demo_chain
      and amount = 0 and ?paused0.0 = True and new_price = 5000000 and new_admin = "''alice''"] n
  have 1: "withdraw_fees demo_chain demo_minted ''alice'' 0 = Inl (Assertion ''Not admin'', demo_minted)
    \<and> set_pause demo_minted ''alice'' 0 True = Inl (Assertion ''Not admin'', demo_minted)
    \<and> update_mint_price demo_minted ''alice'' 0 5000000 = Inl (Assertion ''Not admin'', demo_minted)
    \<and> transfer_admin demo_minted ''alice'' 0 ''alice'' = Inl (Assertion ''Not admin'', demo_minted)"
    by blast
  from admin_only [where sender = "''admin''" and s = demo_minted and amount = 0
      and new_admin = "''new_admin''" and s' = "demo_minted\<lparr>admin := ''new_admin''\<rparr>" and ops = "[]"
      and cs = "[(demo_chain, ''admin'', 0, Set_pause True),
                 (demo_chain, ''new_admin'', 0, Update_mint_price 2000000)]"
      and ?amount2.0 = 0 and ?paused0.0 = True]
    t c
  have 2: "admin (run (demo_minted\<lparr>admin := ''new_admin''\<rparr>)
      [(demo_chain, ''admin'', 0, Set_pause True),
       (demo_chain, ''new_admin'', 0, Update_mint_price 2000000)]) \<noteq> admin demo_minted
    \<and> set_pause (run (demo_minted\<lparr>admin := ''new_admin''\<rparr>)
      [(demo_chain, ''admin'', 0, Set_pause True),
       (demo_chain, ''new_admin'', 0, Update_mint_price 2000000)]) (admin demo_minted) 0 True
     = Inl (Assertion ''Not admin'', run (demo_minted\<lparr>admin := ''new_admin''\<rparr>)
      [(demo_chain, ''admin'', 0, Set_pause True),
       (demo_chain, ''new_admin'', 0, Update_mint_price 2000000)])"
    by blast
  from n 1 2 t show ?thesis
    by (simp only: a) simp
qed

section \<open>Pausing\<close>

text \<open>
  Claim C2, as stated, has \<open>list_for_sale\<close> and the administrator's operations succeed while
  the contract is paused whenever their other preconditions hold. \<open>list_for_sale\<close> does not:
  it asserts \<^verbatim>\<open>not self.data.paused\<close> first. In the paused example storage alice owns
  token 0, the token is not listed and the price 10 is above 0, and her call fails; the same
  call succeeds before the pause. Nor does \<open>withdraw_fees\<close> when \<^verbatim>\<open>sp.send\<close> cannot pay the
  administrator: in the second paused storage the sender is the administrator and there are
  fees to withdraw, and the call fails.
\<close>

theorem paused_list_for_sale_counterexample:
  "paused demo_paused
 \<and> tokens demo_paused 0 = Some alice_token
 \<and> owner alice_token = ''alice''
 \<and> \<not> for_sale alice_token
 \<and> (0::nat) < 10
 \<and> list_for_sale demo_paused ''alice'' 0 0 10 = Inl (Assertion ''Contract is paused'', demo_paused)
 \<and> \<not> succeeds (list_for_sale demo_paused ''alice'' 0 0 10)
 \<and> succeeds (list_for_sale demo_minted ''alice'' 0 0 10)
 \<and> paused demo_vault_admin_paused
 \<and> admin demo_vault_admin_paused = ''KT1_vault''
 \<and> 0 < collected_fees demo_vault_admin_paused
 \<and> \<not> succeeds (withdraw_fees demo_chain demo_vault_admin_paused ''KT1_vault'' 0)"
  by (simp add: list_for_sale_def withdraw_fees_def send_def succeeds_def demo_defs)

text \<open>
  Claim C2, amended. While \<open>paused\<close> is true, \<open>mint\<close>, \<open>buy\<close> and \<open>list_for_sale\<close> fail with the
  message "Contract is paused" and change nothing, whereas \<open>transfer\<close>, \<open>cancel_sale\<close>,
  \<open>withdraw_fees\<close>, \<open>set_pause\<close>, \<open>update_mint_price\<close> and \<open>transfer_admin\<close> succeed exactly when
  their own preconditions hold; the preconditions of \<open>withdraw_fees\<close> are that the sender is
  the administrator, that \<open>collected_fees\<close> is above 0 and that \<^verbatim>\<open>sp.send\<close> can pay the
  administrator. The administrator's \<open>set_pause\<close> with \<open>False\<close> clears the flag and changes
  nothing else, and in the storage it leaves \<open>mint\<close> paid with \<open>mint_price\<close> succeeds again.
\<close>

theorem paused_blocks:
  assumes "paused s"
  shows "mint s sender amount metadata0 = Inl (Assertion ''Contract is paused'', s)
       \<and> buy h s sender amount token_id = Inl (Assertion ''Contract is paused'', s)
       \<and> list_for_sale s sender amount token_id price0 = Inl (Assertion ''Contract is paused'', s)
       \<and> (succeeds (transfer s sender amount token_id new_owner) \<longleftrightarrow>
            (\<exists>token. tokens s token_id = Some token \<and> amount = 0 \<and> owner token = sender
               \<and> new_owner \<noteq> sender \<and> \<not> for_sale token))
       \<and> (succeeds (cancel_sale s sender amount token_id) \<longleftrightarrow>
            (\<exists>token. tokens s token_id = Some token \<and> owner token = sender \<and> for_sale token))
       \<and> (succeeds (withdraw_fees h s sender amount) \<longleftrightarrow>
            sender = admin s \<and> 0 < collected_fees s \<and> h (admin s))
       \<and> (succeeds (set_pause s sender amount paused0) \<longleftrightarrow> sender = admin s)
       \<and> (succeeds (update_mint_price s sender amount new_price) \<longleftrightarrow> sender = admin s)
       \<and> (succeeds (transfer_admin s sender amount new_admin) \<longleftrightarrow>
            sender = admin s \<and> new_admin \<noteq> admin s)
       \<and> set_pause s (admin s) amount False = Inr (s\<lparr>paused := False\<rparr>, [])
       \<and> succeeds (mint (s\<lparr>paused := False\<rparr>) sender (mint_price s) metadata0)"
proof -
  have "mint s sender amount metadata0 = Inl (Assertion ''Contract is paused'', s)"
    and "buy h s sender amount token_id = Inl (Assertion ''Contract is paused'', s)"
    and "list_for_sale s sender amount token_id price0 = Inl (Assertion ''Contract is paused'', s)"
    using assms by (simp_all add: mint_def buy_def list_for_sale_def)
  moreover have "succeeds (transfer s sender amount token_id new_owner) \<longleftrightarrow>
      (\<exists>token. tokens s token_id = Some token \<and> amount = 0 \<and> owner token = sender
         \<and> new_owner \<noteq> sender \<and> \<not> for_sale token)"
    by (auto simp: transfer_def succeeds_def split: option.splits)
  moreover have "succeeds (cancel_sale s sender amount token_id) \<longleftrightarrow>
      (\<exists>token. tokens s token_id = Some token \<and> owner token = sender \<and> for_sale token)"
    by (auto simp: cancel_sale_def succeeds_def Let_def split: option.splits)
  moreover have "succeeds (withdraw_fees h s sender amount) \<longleftrightarrow>
           sender = admin s \<and> 0 < collected_fees s \<and> h (admin s)"
    and "succeeds (set_pause s sender amount paused0) \<longleftrightarrow> sender = admin s"
    and "succeeds (update_mint_price s sender amount new_price) \<longleftrightarrow> sender = admin s"
    and "succeeds (transfer_admin s sender amount new_admin) \<longleftrightarrow>
           sender = admin s \<and> new_admin \<noteq> admin s"
    by (auto simp: withdraw_fees_def send_def set_pause_def update_mint_price_def
          transfer_admin_def succeeds_def Let_def)
  moreover have "set_pause s (admin s) amount False = Inr (s\<lparr>paused := False\<rparr>, [])"
    by (simp add: set_pause_def)
  moreover have "succeeds (mint (s\<lparr>paused := False\<rparr>) sender (mint_price s) metadata0)"
    by (simp add: mint_def succeeds_def Let_def)
  ultimately show ?thesis
    by simp
qed

theorem paused_blocks_witness:
  "paused demo_paused
 \<and> mint demo_paused ''bob'' 1000000 ''more'' = Inl (Assertion ''Contract is paused'', demo_paused)
 \<and> buy demo_chain demo_paused ''bob'' 0 0 = Inl (Assertion ''Contract is paused'', demo_paused)
 \<and> list_for_sale demo_paused ''alice'' 0 0 10 = Inl (Assertion ''Contract is paused'', demo_paused)
 \<and> succeeds (transfer demo_paused ''alice'' 0 0 ''bob'')
 \<and> succeeds (withdraw_fees demo_chain demo_paused ''admin'' 0)
 \<and> succeeds (set_pause demo_paused ''admin'' 0 True)
 \<and> succeeds (update_mint_price demo_paused ''admin'' 0 2000000)
 \<and> succeeds (transfer_admin demo_paused ''admin'' 0 ''new_admin'')
 \<and> set_pause demo_paused ''admin'' 0 False = Inr (demo_minted, [])
 \<and> succeeds (mint demo_minted ''bob'' 1000000 ''more'')
 \<and> paused demo_vault_admin_paused
 \<and> \<not> succeeds (withdraw_fees demo_chain demo_vault_admin_paused ''KT1_vault'' 0)"
proof -
  have p: "paused demo_paused"
    and t: "tokens demo_paused 0 = Some alice_token"
    and a: "admin demo_paused = ''admin''"
    and f: "collected_fees demo_paused = 1000000"
    and m: "mint_price demo_paused = 1000000"
    and u: "demo_paused\<lparr>paused := False\<rparr> = demo_minted"
    and c: "demo_chain ''admin''"
    and q: "paused demo_vault_admin_paused"
    and k: "\<not> demo_chain (admin demo_vault_admin_paused)"
    by (simp_all add: demo_defs)
  from paused_blocks [OF p, where sender = "''bob''" and amount = 1000000 and ?metadata0.0 = "''more''"]
  have 1: "mint demo_paused ''bob'' 1000000 ''more'' = Inl (Assertion ''Contract is paused'', demo_paused)"
    and 2: "succeeds (mint demo_minted ''bob'' 1000000 ''more'')"
    by (simp_all only: m u)
  from paused_blocks [OF p, where h = demo_chain and sender = "''bob''" and amount = 0 and token_id = 0]
  have 3: "buy demo_chain demo_paused ''bob'' 0 0 = Inl (Assertion ''Contract is paused'', demo_paused)"
    by blast
  from paused_blocks [OF p, where sender = "''alice''" and amount = 0 and token_id = 0
      and ?price0.0 = 10 and new_owner = "''bob''"] t
  have 4: "list_for_sale demo_paused ''alice'' 0 0 10 = Inl (Assertion ''Contract is paused'', demo_paused)"
    and 5: "succeeds (transfer demo_paused ''alice'' 0 0 ''bob'')"
    by (simp_all add: alice_token_def)
  from paused_blocks [OF p, where h = demo_chain and sender = "''admin''" and amount = 0
      and ?paused0.0 = True and new_price = 2000000 and new_admin = "''new_admin''"] a f u c
  have 6: "succeeds (withdraw_fees demo_chain demo_paused ''admin'' 0)"
    and 7: "succeeds (set_pause demo_paused ''admin'' 0 True)"
    and 8: "succeeds (update_mint_price demo_paused ''admin'' 0 2000000)"
    and 9: "succeeds (transfer_admin demo_paused ''admin'' 0 ''new_admin'')"
    and 10: "set_pause demo_paused ''admin'' 0 False = Inr (demo_minted, [])"
    by simp_all
  from paused_blocks [OF q, where h = demo_chain and sender = "''KT1_vault''" and amount = 0] k
  have 11: "\<not> succeeds (withdraw_fees demo_chain demo_vault_admin_paused ''KT1_vault'' 0)"
    by simp
  from p q 1 2 3 4 5 6 7 8 9 10 11 show ?thesis
    by simp
qed

section \<open>The attached amount\<close>

text \<open>
  Claim C9, as stated, has \<open>list_for_sale\<close>, \<open>cancel_sale\<close>, \<open>update_author_address\<close>,
  \<open>withdraw_fees\<close>, \<open>set_pause\<close>, \<open>update_mint_price\<close> and \<open>transfer_admin\<close> fail on every call
  with an amount other than 0. None of the seven reads \<^verbatim>\<open>sp.amount\<close>: each succeeds here with
  an amount of 5 mutez attached.
\<close>

theorem nonzero_amount_accepted_counterexample:
  "(5::nat) \<noteq> 0
 \<and> succeeds (list_for_sale demo_minted ''alice'' 5 0 10)
 \<and> succeeds (cancel_sale demo_listed ''alice'' 5 0)
 \<and> succeeds (update_author_address demo_minted ''alice'' 5 0 ''bob'')
 \<and> succeeds (withdraw_fees demo_chain demo_minted ''admin'' 5)
 \<and> succeeds (set_pause demo_minted ''admin'' 5 True)
 \<and> succeeds (update_mint_price demo_minted ''admin'' 5 2000000)
 \<and> succeeds (transfer_admin demo_minted ''admin'' 5 ''new_admin'')"
  by (simp add: entrypoint_defs succeeds_def demo_defs)

text \<open>
  Claim C9, amended. Of the entrypoints whose payment constraint is 0 in the interface
  table, \<open>transfer\<close> alone fails on every call with an amount other than 0, for every storage
  and sender. \<open>list_for_sale\<close>, \<open>cancel_sale\<close>, \<open>update_author_address\<close>, \<open>withdraw_fees\<close>,
  \<open>set_pause\<close>, \<open>update_mint_price\<close> and \<open>transfer_admin\<close> do not read the amount: each has, with
  any amount attached, the outcome it has with amount 0.
\<close>

theorem amount_ignored:
  "(amount \<noteq> 0 \<longrightarrow> \<not> succeeds (transfer s sender amount token_id new_owner))
 \<and> list_for_sale s sender amount token_id price0 = list_for_sale s sender 0 token_id price0
 \<and> cancel_sale s sender amount token_id = cancel_sale s sender 0 token_id
 \<and> update_author_address s sender amount token_id new_author
     = update_author_address s sender 0 token_id new_author
 \<and> withdraw_fees h s sender amount = withdraw_fees h s sender 0
 \<and> set_pause s sender amount paused0 = set_pause s sender 0 paused0
 \<and> update_mint_price s sender amount new_price = update_mint_price s sender 0 new_price
 \<and> transfer_admin s sender amount new_admin = transfer_admin s sender 0 new_admin"
proof -
  have "amount \<noteq> 0 \<longrightarrow> \<not> succeeds (transfer s sender amount token_id new_owner)"
    by (simp add: transfer_def succeeds_def split: option.splits)
  then show ?thesis
    by (simp add: list_for_sale_def cancel_sale_def update_author_address_def withdraw_fees_def
          set_pause_def update_mint_price_def transfer_admin_def)
qed

theorem amount_ignored_witness:
  "(1000000::nat) \<noteq> 0
 \<and> \<not> succeeds (transfer demo_minted ''alice'' 1000000 0 ''bob'')
 \<and> succeeds (transfer demo_minted ''alice'' 0 0 ''bob'')
 \<and> set_pause demo_minted ''admin'' 1000000 True = Inr (demo_paused, [])
 \<and> set_pause demo_minted ''admin'' 0 True = Inr (demo_paused, [])"
proof -
  have n: "(1000000::nat) \<noteq> 0"
    by simp
  have z: "set_pause demo_minted ''admin'' 0 True = Inr (demo_paused, [])"
    by (simp add: set_pause_def demo_defs)
  have y: "succeeds (transfer demo_minted ''alice'' 0 0 ''bob'')"
    by (simp add: transfer_def succeeds_def demo_defs)
  from amount_ignored [where amount = 1000000 and s = demo_minted and sender = "''alice''"
      and token_id = 0 and new_owner = "''bob''"] n
  have 1: "\<not> succeeds (transfer demo_minted ''alice'' 1000000 0 ''bob'')"
    by blast
  from amount_ignored [where amount = 1000000 and s = demo_minted and sender = "''admin''"
      and ?paused0.0 = True] z
  have 2: "set_pause demo_minted ''admin'' 1000000 True = Inr (demo_paused, [])"
    by simp
  from n 1 2 y z show ?thesis
    by simp
qed

end
